theory Spec2Isabelle
  imports Main
begin

section \<open>Strings\<close>

text \<open>
  A Python \<^verbatim>\<open>str\<close> is a sequence of Unicode code points, so it is modelled as a list of
  natural numbers. \<open>cps\<close> turns an ASCII literal into its code points; the few non-ASCII
  characters of the launcher's messages are written as numbers.
\<close>

type_synonym pystr = "nat list"

definition cps :: "string \<Rightarrow> pystr" where
  "cps s = map of_char s"

text \<open>
  \<^verbatim>\<open>str.strip()\<close> without argument removes the leading and trailing characters that
  \<^verbatim>\<open>str.isspace\<close> accepts: the ASCII controls 9 to 13 and 28 to 31, the space, and the
  Unicode separators listed below.
\<close>

definition isspace :: "nat \<Rightarrow> bool" where
  "isspace c \<longleftrightarrow>
     (9 \<le> c \<and> c \<le> 13) \<or> (28 \<le> c \<and> c \<le> 32) \<or> c = 133 \<or> c = 160 \<or>
     c = 5760 \<or> (8192 \<le> c \<and> c \<le> 8202) \<or> c = 8232 \<or> c = 8233 \<or>
     c = 8239 \<or> c = 8287 \<or> c = 12288"

definition strip :: "pystr \<Rightarrow> pystr" where
  "strip s = rev (dropWhile isspace (rev (dropWhile isspace s)))"

definition startswith :: "pystr \<Rightarrow> pystr \<Rightarrow> bool" where
  "startswith s p \<longleftrightarrow> take (length p) s = p"

section \<open>The process and its surroundings\<close>

text \<open>
  Every call of \<^verbatim>\<open>input()\<close> consumes one event of the standard input: a line, or an
  interrupt delivered while the call is blocked. An exhausted input is the end of file,
  where \<^verbatim>\<open>input()\<close> raises \<^verbatim>\<open>EOFError\<close>.
\<close>

datatype event = Line pystr | Interrupt

datatype exn =
    KeyboardInterrupt
  | EOFError
  | SystemExit int
  | CalledProcessError "pystr list" int
  | FileNotFoundError
  | OtherOSError
  | ValueError

text \<open>
  What \<^verbatim>\<open>subprocess.run\<close> meets: the child ran and ended with a return code, the
  executable was not found when spawning, spawning failed for another reason of the
  operating system, or an interrupt arrived while waiting for the child.
\<close>

datatype child = Exited int | NotFound | SpawnFailed | Interrupted

datatype mode = VisualMode | TerminalMode

type_synonym path = "pystr list"

text \<open>
  The host is what the launcher reads and never changes: the platform, its own directory,
  the interpreter, the file system as the existence checks see it, and the behaviour of a
  spawned command (which inherits the environment). The texts of \<^verbatim>\<open>str(path)\<close> and of
  \<^verbatim>\<open>str(e)\<close> for a \<^verbatim>\<open>CalledProcessError\<close> belong to the Python library and are taken
  as given. So is \<open>putenv_refuses\<close>: the values that the platform does not take into its
  environment for reasons of its own (a value that the file-system encoding cannot
  encode, a variable longer than the limit of Windows).
\<close>

record host =
  win32 :: bool
  script_dir :: path
  sys_executable :: pystr
  path_exists :: "path \<Rightarrow> bool"
  path_str :: "path \<Rightarrow> pystr"
  popen :: "(pystr \<rightharpoonup> pystr) \<Rightarrow> pystr list \<Rightarrow> child"
  exc_str :: "pystr list \<Rightarrow> int \<Rightarrow> pystr"
  putenv_refuses :: "pystr \<Rightarrow> pystr \<Rightarrow> bool"

text \<open>
  The state is what the launcher changes: \<^verbatim>\<open>os.environ\<close>, the remaining input, the
  text written so far (one entry per write), and two logs kept for the statements below:
  the launch strategies entered and the commands whose child was started.
\<close>

record state =
  environ :: "pystr \<rightharpoonup> pystr"
  stdin :: "event list"
  stdout :: "pystr list"
  launched :: "mode list"
  spawned :: "pystr list list"

definition py_print :: "pystr \<Rightarrow> state \<Rightarrow> state" where
  "py_print x s = s\<lparr>stdout := stdout s @ [x @ [10]]\<rparr>"

definition py_input :: "pystr \<Rightarrow> state \<Rightarrow> (exn + pystr) \<times> state" where
  "py_input prompt s =
     (let s1 = s\<lparr>stdout := stdout s @ [prompt]\<rparr> in
      case stdin s of
        [] \<Rightarrow> (Inl EOFError, s1)
      | Line l # rest \<Rightarrow> (Inr l, s1\<lparr>stdin := rest\<rparr>)
      | Interrupt # rest \<Rightarrow> (Inl KeyboardInterrupt, s1\<lparr>stdin := rest\<rparr>))"

text \<open>
  \<^verbatim>\<open>os.environ[k] = v\<close> raises \<^verbatim>\<open>ValueError\<close> (or its subclass
  \<^verbatim>\<open>UnicodeEncodeError\<close>) and leaves the environment as it was when the key or the value
  holds the null character, or when the platform refuses them; otherwise it stores the
  value.
\<close>

definition setenv :: "host \<Rightarrow> pystr \<Rightarrow> pystr \<Rightarrow> state \<Rightarrow> exn + state" where
  "setenv h k v s =
     (if 0 \<in> set k \<or> 0 \<in> set v \<or> putenv_refuses h k v then Inl ValueError
      else Inr (s\<lparr>environ := (environ s)(k \<mapsto> v)\<rparr>))"

text \<open>\<^verbatim>\<open>subprocess.run(cmd, check=True)\<close>: a non-zero return code raises.\<close>

definition subprocess_run :: "host \<Rightarrow> pystr list \<Rightarrow> state \<Rightarrow> (exn + unit) \<times> state" where
  "subprocess_run h cmd s =
     (let s1 = s\<lparr>spawned := spawned s @ [cmd]\<rparr> in
      case popen h (environ s) cmd of
        Exited rc \<Rightarrow> if rc \<noteq> 0 then (Inl (CalledProcessError cmd rc), s1) else (Inr (), s1)
      | NotFound \<Rightarrow> (Inl FileNotFoundError, s)
      | SpawnFailed \<Rightarrow> (Inl OtherOSError, s)
      | Interrupted \<Rightarrow> (Inl KeyboardInterrupt, s1))"

section \<open>The credential gate\<close>

definition GEMINI_API_KEY :: pystr where
  "GEMINI_API_KEY = cps ''GEMINI_API_KEY''"

definition key_prompt :: pystr where
  "key_prompt = cps ''Enter your Gemini API key (or press Ctrl+C to exit): ''"

definition key_accepted :: "state \<Rightarrow> state" where
  "key_accepted s = py_print [] (py_print (10003 # cps '' API key accepted!'') s)"

definition key_rejected :: "state \<Rightarrow> state" where
  "key_rejected s =
     py_print []
       (py_print (cps ''Please get a valid key from: https://aistudio.google.com/app/apikey'')
          (py_print (cps ''Invalid API key format. API keys should start with 'AIza'' @ [39]) s))"

text \<open>The \<^verbatim>\<open>while True\<close> loop of \<^verbatim>\<open>check_api_key\<close>.\<close>

function prompt_loop :: "host \<Rightarrow> state \<Rightarrow> (exn + pystr) \<times> state" where
  "prompt_loop h s =
     (case py_input key_prompt s of
        (Inl e, s1) \<Rightarrow> (Inl e, s1)
      | (Inr l, s1) \<Rightarrow>
          (let api_key = strip l in
           if api_key \<noteq> [] \<and> startswith api_key (cps ''AIza'')
           then (case setenv h GEMINI_API_KEY api_key s1 of
                   Inl e \<Rightarrow> (Inl e, s1)
                 | Inr s2 \<Rightarrow> (Inr api_key, key_accepted s2))
           else prompt_loop h (key_rejected s1)))"
  by pat_completeness auto
termination
  by (relation "measure (\<lambda>(h, s). length (stdin s))")
     (auto simp: py_input_def py_print_def key_rejected_def Let_def
           split: list.splits event.splits)

declare prompt_loop.simps [simp del]

definition banner :: "state \<Rightarrow> state" where
  "banner s =
     py_print []
       (py_print (cps ''Get your free API key from: https://aistudio.google.com/app/apikey'')
          (py_print (cps ''This game requires a Gemini API key to generate AI images.'')
             (py_print (cps ''=== Armenian Global Game Jam Launcher ==='') s)))"

text \<open>\<^verbatim>\<open>not api_key\<close> holds for \<^verbatim>\<open>None\<close> and for the empty string.\<close>

definition check_api_key :: "host \<Rightarrow> state \<Rightarrow> (exn + pystr) \<times> state" where
  "check_api_key h s =
     (case environ s GEMINI_API_KEY of
        None \<Rightarrow> prompt_loop h (banner s)
      | Some api_key \<Rightarrow> if api_key = [] then prompt_loop h (banner s) else (Inr api_key, s))"

section \<open>The launch strategies\<close>

text \<open>The paths and commands that \<^verbatim>\<open>run_with_gui\<close> and \<^verbatim>\<open>run_cli\<close> compose.\<close>

definition venv_dir :: "host \<Rightarrow> path" where
  "venv_dir h = script_dir h @ [cps ''.venv'']"

definition pipedream_exe :: "host \<Rightarrow> path" where
  "pipedream_exe h =
     (if win32 h then venv_dir h @ [cps ''Scripts'', cps ''pipedream-gui.exe'']
      else venv_dir h @ [cps ''bin'', cps ''pipedream-gui''])"

definition pytrek_script :: "host \<Rightarrow> path" where
  "pytrek_script h =
     (if win32 h then script_dir h @ [cps ''pytrek-9000.sh'']
      else script_dir h @ [cps ''pytrek-9000.sh''])"

definition bash_cmd :: "host \<Rightarrow> pystr" where
  "bash_cmd h = (if win32 h then cps ''bash'' else cps ''bash'')"

definition gui_cmd :: "host \<Rightarrow> pystr list" where
  "gui_cmd h =
     [path_str h (pipedream_exe h), cps ''--art-style'',
      cps ''StarTrek sci-fi game, orange monochrome'',
      bash_cmd h, path_str h (pytrek_script h)]"

definition pytrek_cli :: "host \<Rightarrow> path" where
  "pytrek_cli h = script_dir h @ [cps ''pytrek_cli.py'']"

definition cli_cmd :: "host \<Rightarrow> pystr list" where
  "cli_cmd h = [sys_executable h, path_str h (pytrek_cli h)]"

definition gui_banner :: pystr where
  "gui_banner = 127912 # cps '' Launching with AI visualization (PipeDream GUI)...''"

definition cli_banner :: pystr where
  "cli_banner = 128640 # cps '' Launching terminal-only version (PyTrek)...''"

definition run_with_gui :: "host \<Rightarrow> state \<Rightarrow> (exn + unit) \<times> state" where
  "run_with_gui h s0 =
     (let s = py_print gui_banner (s0\<lparr>launched := launched s0 @ [VisualMode]\<rparr>) in
      if \<not> path_exists h (venv_dir h)
      then (Inl (SystemExit 1),
            py_print (cps ''Error: Virtual environment not found. Run 'uv venv && uv pip install -e .' first.'') s)
      else if \<not> path_exists h (pipedream_exe h)
      then (Inl (SystemExit 1),
            py_print (cps ''Error: pipedream-gui not found at '' @ path_str h (pipedream_exe h)) s)
      else
        (case subprocess_run h (gui_cmd h) s of
           (Inl (CalledProcessError c rc), s1) \<Rightarrow>
             (Inl (SystemExit 1), py_print (cps ''Error running GUI: '' @ exc_str h c rc) s1)
         | (Inl FileNotFoundError, s1) \<Rightarrow>
             (Inl (SystemExit 1), py_print (cps ''Error: Required command not found'') s1)
         | r \<Rightarrow> r))"

definition run_cli :: "host \<Rightarrow> state \<Rightarrow> (exn + unit) \<times> state" where
  "run_cli h s0 =
     (let s = py_print cli_banner (s0\<lparr>launched := launched s0 @ [TerminalMode]\<rparr>) in
      if \<not> path_exists h (pytrek_cli h)
      then (Inl (SystemExit 1),
            py_print (cps ''Error: pytrek_cli.py not found at '' @ path_str h (pytrek_cli h)) s)
      else
        (case subprocess_run h (cli_cmd h) s of
           (Inl (CalledProcessError c rc), s1) \<Rightarrow>
             (Inl (SystemExit 1), py_print (cps ''Error running CLI: '' @ exc_str h c rc) s1)
         | r \<Rightarrow> r))"

section \<open>The menu\<close>

definition show_menu :: "state \<Rightarrow> state" where
  "show_menu s =
     py_print []
       (py_print (cps ''3. Exit'')
          (py_print (cps ''2. Play Terminal-Only Version'')
             (py_print (cps ''1. Play with AI Visualization (Recommended)'')
                (py_print (127918 # cps '' Select Game Mode:'') s))))"

definition choice_prompt :: pystr where
  "choice_prompt = cps ''Enter your choice (1-3): ''"

definition goodbye :: pystr where
  "goodbye = cps ''Goodbye! '' @ [128406]"

definition invalid_choice :: "state \<Rightarrow> state" where
  "invalid_choice s =
     py_print [] (py_print (cps ''Invalid choice. Please enter 1, 2, or 3.'') s)"

text \<open>
  The \<^verbatim>\<open>while True\<close> loop of \<^verbatim>\<open>main\<close>. After a launch strategy returns, \<^verbatim>\<open>break\<close>
  leaves the loop and \<^verbatim>\<open>main\<close> returns; what the strategy raises goes up unchanged.
\<close>

function menu_loop :: "host \<Rightarrow> state \<Rightarrow> (exn + unit) \<times> state" where
  "menu_loop h s =
     (case py_input choice_prompt (show_menu s) of
        (Inl e, s1) \<Rightarrow> (Inl e, s1)
      | (Inr l, s1) \<Rightarrow>
          (let choice = strip l in
           if choice = cps ''1'' then run_with_gui h s1
           else if choice = cps ''2'' then run_cli h s1
           else if choice = cps ''3'' then (Inl (SystemExit 0), py_print goodbye s1)
           else menu_loop h (invalid_choice s1)))"
  by pat_completeness auto
termination
  by (relation "measure (\<lambda>(h, s). length (stdin s))")
     (auto simp: py_input_def py_print_def show_menu_def invalid_choice_def Let_def
           split: list.splits event.splits)

declare menu_loop.simps [simp del]

definition main :: "host \<Rightarrow> state \<Rightarrow> (exn + unit) \<times> state" where
  "main h s =
     (case check_api_key h s of
        (Inl e, s1) \<Rightarrow> (Inl e, s1)
      | (Inr api_key, s1) \<Rightarrow> menu_loop h s1)"

section \<open>The process\<close>

text \<open>
  How the process ends: \<^verbatim>\<open>sys.exit(n)\<close> and a normal return of the script end it with
  a status; an exception nobody handles ends it with a traceback and status 1.
\<close>

datatype outcome = Exit int | Traceback exn

fun status :: "outcome \<Rightarrow> int" where
  "status (Exit n) = n"
| "status (Traceback e) = 1"

text \<open>The \<^verbatim>\<open>__main__\<close> block: only \<^verbatim>\<open>KeyboardInterrupt\<close> is handled.\<close>

definition top_level :: "(exn + unit) \<times> state \<Rightarrow> outcome \<times> state" where
  "top_level r =
     (case r of
        (Inr u, s) \<Rightarrow> (Exit 0, s)
      | (Inl KeyboardInterrupt, s) \<Rightarrow> (Exit 0, py_print ([10, 10] @ goodbye) s)
      | (Inl (SystemExit n), s) \<Rightarrow> (Exit n, s)
      | (Inl e, s) \<Rightarrow> (Traceback e, s))"

definition launcher :: "host \<Rightarrow> state \<Rightarrow> outcome \<times> state" where
  "launcher h s = top_level (main h s)"

text \<open>
  A graceful exit: status 0, and the last thing written is the farewell of the
  \<^verbatim>\<open>KeyboardInterrupt\<close> handler.
\<close>

definition graceful_exit :: "outcome \<times> state \<Rightarrow> bool" where
  "graceful_exit r \<longleftrightarrow>
     fst r = Exit 0 \<and> stdout (snd r) \<noteq> [] \<and> last (stdout (snd r)) = [10, 10] @ goodbye @ [10]"

section \<open>Example hosts and states\<close>

text \<open>A state with nothing in the environment, and one where the key is already set.\<close>

definition fresh :: "event list \<Rightarrow> state" where
  "fresh evs = \<lparr>environ = Map.empty, stdin = evs, stdout = [], launched = [], spawned = []\<rparr>"

definition keyed :: "pystr \<Rightarrow> event list \<Rightarrow> state" where
  "keyed k evs =
     \<lparr>environ = [GEMINI_API_KEY \<mapsto> k], stdin = evs, stdout = [], launched = [], spawned = []\<rparr>"

text \<open>
  A POSIX host whose existence checks answer \<open>present\<close>, whose spawned commands all
  meet \<open>c\<close>, and which refuses no value without the null character.
\<close>

definition posix_host :: "(path \<Rightarrow> bool) \<Rightarrow> child \<Rightarrow> host" where
  "posix_host present c =
     \<lparr>win32 = False, script_dir = [cps ''game''], sys_executable = cps ''python3'',
      path_exists = present, path_str = concat, popen = (\<lambda>env cmd. c),
      exc_str = (\<lambda>cmd rc. cps ''non-zero exit status''),
      putenv_refuses = (\<lambda>k v. False)\<rparr>"

definition everything :: "path \<Rightarrow> bool" where
  "everything p = True"

definition nothing :: "path \<Rightarrow> bool" where
  "nothing p = False"

definition only_venv :: "path \<Rightarrow> bool" where
  "only_venv p \<longleftrightarrow> p = [cps ''game'', cps ''.venv'']"

section \<open>Basic facts\<close>

lemma py_input_Line:
  "stdin s = Line l # rest \<Longrightarrow>
   py_input p s = (Inr l, s\<lparr>stdout := stdout s @ [p], stdin := rest\<rparr>)"
  by (simp add: py_input_def)

lemma py_input_Interrupt:
  "stdin s = Interrupt # rest \<Longrightarrow>
   py_input p s = (Inl KeyboardInterrupt, s\<lparr>stdout := stdout s @ [p], stdin := rest\<rparr>)"
  by (simp add: py_input_def)

lemma py_input_EOF:
  "stdin s = [] \<Longrightarrow> py_input p s = (Inl EOFError, s\<lparr>stdout := stdout s @ [p]\<rparr>)"
  by (simp add: py_input_def)

lemma prompt_loop_Line:
  "stdin s = Line l # rest \<Longrightarrow>
   prompt_loop h s =
     (if strip l \<noteq> [] \<and> startswith (strip l) (cps ''AIza'')
      then (case setenv h GEMINI_API_KEY (strip l)
                   (s\<lparr>stdout := stdout s @ [key_prompt], stdin := rest\<rparr>) of
              Inl e \<Rightarrow> (Inl e, s\<lparr>stdout := stdout s @ [key_prompt], stdin := rest\<rparr>)
            | Inr s2 \<Rightarrow> (Inr (strip l), key_accepted s2))
      else prompt_loop h (key_rejected (s\<lparr>stdout := stdout s @ [key_prompt], stdin := rest\<rparr>)))"
  by (subst prompt_loop.simps) (simp add: py_input_Line Let_def)

lemma prompt_loop_Interrupt:
  "stdin s = Interrupt # rest \<Longrightarrow>
   prompt_loop h s =
     (Inl KeyboardInterrupt, s\<lparr>stdout := stdout s @ [key_prompt], stdin := rest\<rparr>)"
  by (subst prompt_loop.simps) (simp add: py_input_Interrupt)

lemma prompt_loop_EOF:
  "stdin s = [] \<Longrightarrow>
   prompt_loop h s = (Inl EOFError, s\<lparr>stdout := stdout s @ [key_prompt]\<rparr>)"
  by (subst prompt_loop.simps) (simp add: py_input_EOF)

lemma environ_key_accepted [simp]: "environ (key_accepted s) = environ s"
  by (simp add: key_accepted_def py_print_def)

lemma setenv_Inr:
  "setenv h k v s = Inr s2 \<Longrightarrow> s2 = s\<lparr>environ := (environ s)(k \<mapsto> v)\<rparr>"
  by (simp add: setenv_def split: if_splits)

lemma setenv_taken:
  "0 \<notin> set k \<Longrightarrow> 0 \<notin> set v \<Longrightarrow> \<not> putenv_refuses h k v \<Longrightarrow>
   setenv h k v s = Inr (s\<lparr>environ := (environ s)(k \<mapsto> v)\<rparr>)"
  by (simp add: setenv_def)

lemma setenv_null: "0 \<in> set v \<Longrightarrow> setenv h k v s = Inl ValueError"
  by (simp add: setenv_def)

lemma key_without_null: "0 \<notin> set GEMINI_API_KEY"
  by (simp add: GEMINI_API_KEY_def cps_def)

lemma py_print_fields [simp]:
  "stdin (py_print x s) = stdin s" "environ (py_print x s) = environ s"
  "launched (py_print x s) = launched s" "spawned (py_print x s) = spawned s"
  by (simp_all add: py_print_def)

lemma key_rejected_fields [simp]:
  "stdin (key_rejected s) = stdin s" "environ (key_rejected s) = environ s"
  "launched (key_rejected s) = launched s" "spawned (key_rejected s) = spawned s"
  by (simp_all add: key_rejected_def)

lemma menu_loop_Line:
  "stdin s = Line l # rest \<Longrightarrow>
   menu_loop h s =
     (if strip l = cps ''1'' then run_with_gui h (snd (py_input choice_prompt (show_menu s)))
      else if strip l = cps ''2'' then run_cli h (snd (py_input choice_prompt (show_menu s)))
      else if strip l = cps ''3''
      then (Inl (SystemExit 0), py_print goodbye (snd (py_input choice_prompt (show_menu s))))
      else menu_loop h (invalid_choice (snd (py_input choice_prompt (show_menu s)))))"
  by (subst menu_loop.simps) (simp add: py_input_def show_menu_def py_print_def Let_def)

lemma menu_loop_Interrupt:
  "stdin s = Interrupt # rest \<Longrightarrow>
   menu_loop h s = (Inl KeyboardInterrupt, snd (py_input choice_prompt (show_menu s)))"
  by (subst menu_loop.simps) (simp add: py_input_def show_menu_def py_print_def Let_def)

lemma menu_loop_EOF:
  "stdin s = [] \<Longrightarrow>
   menu_loop h s = (Inl EOFError, snd (py_input choice_prompt (show_menu s)))"
  by (subst menu_loop.simps) (simp add: py_input_def show_menu_def py_print_def Let_def)

text \<open>The state in which a menu choice is handled: the menu shown, the line consumed.\<close>

lemma asked_fields:
  "stdin s = Line l # rest \<Longrightarrow>
   stdin (snd (py_input choice_prompt (show_menu s))) = rest \<and>
   environ (snd (py_input choice_prompt (show_menu s))) = environ s \<and>
   launched (snd (py_input choice_prompt (show_menu s))) = launched s \<and>
   spawned (snd (py_input choice_prompt (show_menu s))) = spawned s"
  by (simp add: py_input_def show_menu_def py_print_def)

lemma run_with_gui_launched: "launched (snd (run_with_gui h s)) = launched s @ [VisualMode]"
  by (simp add: run_with_gui_def subprocess_run_def py_print_def Let_def
           split: child.splits)

lemma run_cli_launched: "launched (snd (run_cli h s)) = launched s @ [TerminalMode]"
  by (simp add: run_cli_def subprocess_run_def py_print_def Let_def
           split: child.splits)

text \<open>The credential gate enters no launch strategy and starts no child.\<close>

lemma prompt_loop_frame:
  "launched (snd (prompt_loop h s)) = launched s \<and> spawned (snd (prompt_loop h s)) = spawned s"
proof (induction h s rule: prompt_loop.induct)
  case (1 h s)
  show ?case
  proof (cases "stdin s")
    case Nil
    then show ?thesis by (simp add: prompt_loop_EOF)
  next
    case (Cons e rest)
    show ?thesis
    proof (cases e)
      case Interrupt
      with Cons show ?thesis by (simp add: prompt_loop_Interrupt)
    next
      case (Line l)
      with Cons have st: "stdin s = Line l # rest" by simp
      show ?thesis
      proof (cases "strip l \<noteq> [] \<and> startswith (strip l) (cps ''AIza'')")
        case True
        with st show ?thesis
          by (auto simp: prompt_loop_Line key_accepted_def split: sum.splits
                   dest!: setenv_Inr)
      next
        case False
        have eq: "prompt_loop h s =
            prompt_loop h (key_rejected (s\<lparr>stdout := stdout s @ [key_prompt], stdin := rest\<rparr>))"
          using prompt_loop_Line [OF st] False by auto
        from "1.IH" [OF py_input_Line [OF st, symmetric] refl] False show ?thesis
          unfolding eq by simp
      qed
    qed
  qed
qed

lemma check_api_key_frame:
  "launched (snd (check_api_key h s)) = launched s \<and> spawned (snd (check_api_key h s)) = spawned s"
  by (simp add: check_api_key_def prompt_loop_frame banner_def split: option.splits)

text \<open>What the prompt loop returns was accepted by it and is in the environment.\<close>

lemma prompt_loop_returns:
  "prompt_loop h s = (Inr k, s') \<Longrightarrow>
   environ s' GEMINI_API_KEY = Some k \<and> k \<noteq> [] \<and> startswith k (cps ''AIza'')"
proof (induction h s rule: prompt_loop.induct)
  case (1 h s)
  show ?case
  proof (cases "stdin s")
    case Nil
    with "1.prems" show ?thesis
      by (simp add: prompt_loop_EOF)
  next
    case (Cons e rest)
    show ?thesis
    proof (cases e)
      case Interrupt
      with Cons "1.prems" show ?thesis
        by (simp add: prompt_loop_Interrupt)
    next
      case (Line l)
      with Cons have st: "stdin s = Line l # rest" by simp
      show ?thesis
      proof (cases "strip l \<noteq> [] \<and> startswith (strip l) (cps ''AIza'')")
        case True
        with "1.prems" st show ?thesis
          by (auto simp: prompt_loop_Line split: sum.splits dest!: setenv_Inr)
      next
        case False
        with "1.prems" st
        have "prompt_loop h (key_rejected (s\<lparr>stdout := stdout s @ [key_prompt], stdin := rest\<rparr>))
              = (Inr k, s')"
          by (simp add: prompt_loop_Line)
        with "1.IH" [OF py_input_Line [OF st, symmetric] refl] False show ?thesis
          by blast
      qed
    qed
  qed
qed

section \<open>The credential gate: properties\<close>

text \<open>
  C1, as stated, fails in two places. The line \<^verbatim>\<open>" AIza1234"\<close> is non-empty and does not
  start with \<^verbatim>\<open>AIza\<close>, yet it is accepted, because the test is made after trimming. And
  the line \<^verbatim>\<open>AIza\<close>, null character, \<^verbatim>\<open>abc\<close> is non-empty after trimming and starts with
  \<^verbatim>\<open>AIza\<close>, yet it is neither stored nor returned: the assignment to \<^verbatim>\<open>os.environ\<close>
  raises \<^verbatim>\<open>ValueError\<close>, which nothing handles, and the process ends with a traceback.
\<close>

theorem prompt_accepts_untrimmed_and_fails_on_null:
  "cps '' AIza1234'' \<noteq> [] \<and> \<not> startswith (cps '' AIza1234'') (cps ''AIza'')
   \<and> fst (prompt_loop (posix_host everything (Exited 0)) (fresh [Line (cps '' AIza1234'')]))
       = Inr (cps ''AIza1234'')
   \<and> strip (cps ''AIza'' @ 0 # cps ''abc'') \<noteq> []
   \<and> startswith (strip (cps ''AIza'' @ 0 # cps ''abc'')) (cps ''AIza'')
   \<and> fst (prompt_loop (posix_host everything (Exited 0))
             (fresh [Line (cps ''AIza'' @ 0 # cps ''abc'')])) = Inl ValueError
   \<and> fst (launcher (posix_host everything (Exited 0))
             (fresh [Line (cps ''AIza'' @ 0 # cps ''abc'')])) = Traceback ValueError
   \<and> environ (snd (launcher (posix_host everything (Exited 0))
             (fresh [Line (cps ''AIza'' @ 0 # cps ''abc'')]))) GEMINI_API_KEY = None"
  by (simp add: launcher_def main_def check_api_key_def banner_def top_level_def
        prompt_loop_Line fresh_def strip_def isspace_def startswith_def cps_def
        setenv_def GEMINI_API_KEY_def posix_host_def key_accepted_def py_print_def)

text \<open>
  C1, amended. For a line read at the credential prompt, with \<open>strip l\<close> its trimmed form:
  if the trimmed form is non-empty and starts with \<^verbatim>\<open>AIza\<close>, and the environment takes it
  (it holds no null character and the platform does not refuse it), the loop returns it,
  the environment holds it under \<^verbatim>\<open>GEMINI_API_KEY\<close> (nothing else of the environment
  changes) and the rest of the input is left unread; if the trimmed form is empty or does
  not start with \<^verbatim>\<open>AIza\<close>, the loop writes the prompt and the three lines of the
  diagnostic and goes on as the same loop on the rest of the input.
\<close>

theorem prompt_accepts_iff_trimmed_prefixed:
  assumes "stdin s = Line l # rest"
  shows "(strip l \<noteq> [] \<and> startswith (strip l) (cps ''AIza'')
          \<and> 0 \<notin> set (strip l) \<and> \<not> putenv_refuses h GEMINI_API_KEY (strip l) \<longrightarrow>
            (\<exists>s'. prompt_loop h s = (Inr (strip l), s') \<and>
                  environ s' = (environ s)(GEMINI_API_KEY \<mapsto> strip l) \<and>
                  stdin s' = rest))
       \<and> (\<not> (strip l \<noteq> [] \<and> startswith (strip l) (cps ''AIza'')) \<longrightarrow>
            prompt_loop h s =
              prompt_loop h (s\<lparr>stdin := rest, stdout := stdout s @ [key_prompt,
                 cps ''Invalid API key format. API keys should start with 'AIza'' @ [39, 10],
                 cps ''Please get a valid key from: https://aistudio.google.com/app/apikey'' @ [10],
                 [10]]\<rparr>))"
  using assms
  by (simp add: prompt_loop_Line setenv_taken key_without_null key_accepted_def
        key_rejected_def py_print_def)

theorem prompt_accepts_iff_trimmed_prefixed_witness:
  "fst (prompt_loop (posix_host everything (Exited 0)) (fresh [Line (cps ''AIza1234'')]))
     = Inr (cps ''AIza1234'')
   \<and> environ (snd (prompt_loop (posix_host everything (Exited 0))
        (fresh [Line (cps ''AIza1234'')]))) GEMINI_API_KEY = Some (cps ''AIza1234'')
   \<and> prompt_loop (posix_host everything (Exited 0))
        (fresh [Line (cps ''sk-1234''), Line (cps ''AIza1234'')])
       = prompt_loop (posix_host everything (Exited 0))
           ((fresh [Line (cps ''AIza1234'')])\<lparr>stdout := [key_prompt,
             cps ''Invalid API key format. API keys should start with 'AIza'' @ [39, 10],
             cps ''Please get a valid key from: https://aistudio.google.com/app/apikey'' @ [10],
             [10]]\<rparr>)"
  using prompt_accepts_iff_trimmed_prefixed
          [of "fresh [Line (cps ''AIza1234'')]" "cps ''AIza1234''" "[]"
              "posix_host everything (Exited 0)"]
        prompt_accepts_iff_trimmed_prefixed
          [of "fresh [Line (cps ''sk-1234''), Line (cps ''AIza1234'')]" "cps ''sk-1234''"
              "[Line (cps ''AIza1234'')]" "posix_host everything (Exited 0)"]
  by (auto simp: fresh_def strip_def cps_def isspace_def startswith_def posix_host_def)

text \<open>
  C7. When \<^verbatim>\<open>GEMINI_API_KEY\<close> already holds a non-empty value, \<^verbatim>\<open>check_api_key\<close> returns
  that value and leaves the whole state as it was: nothing is written, no input is read,
  the environment is unchanged. The value is not tested against the \<^verbatim>\<open>AIza\<close> prefix.
\<close>

theorem preset_key_returned_unchanged:
  assumes "environ s GEMINI_API_KEY = Some k" and "k \<noteq> []"
  shows "check_api_key h s = (Inr k, s)"
  using assms by (simp add: check_api_key_def)

theorem preset_key_returned_unchanged_witness:
  "\<not> startswith (cps ''not-a-key'') (cps ''AIza'')
   \<and> check_api_key (posix_host everything (Exited 0))
         (keyed (cps ''not-a-key'') [Line (cps ''AIza1234'')])
       = (Inr (cps ''not-a-key''), keyed (cps ''not-a-key'') [Line (cps ''AIza1234'')])"
  using preset_key_returned_unchanged
          [of "keyed (cps ''not-a-key'') [Line (cps ''AIza1234'')]" "cps ''not-a-key''"
              "posix_host everything (Exited 0)"]
  by (simp add: keyed_def startswith_def cps_def)

text \<open>
  C9. Whenever \<^verbatim>\<open>check_api_key\<close> returns a value, the environment of the resulting state
  holds that value under \<^verbatim>\<open>GEMINI_API_KEY\<close> and the value is non-empty; and when the key was
  not set (or was empty) at the start, so that the value came from the prompt, the value
  starts with \<^verbatim>\<open>AIza\<close>.
\<close>

theorem returned_key_is_in_environment:
  assumes "check_api_key h s = (Inr k, s')"
  shows "environ s' GEMINI_API_KEY = Some k \<and> k \<noteq> []
       \<and> ((environ s GEMINI_API_KEY = None \<or> environ s GEMINI_API_KEY = Some [])
            \<longrightarrow> startswith k (cps ''AIza''))"
proof (cases "environ s GEMINI_API_KEY = None \<or> environ s GEMINI_API_KEY = Some []")
  case True
  with assms have "prompt_loop h (banner s) = (Inr k, s')"
    by (auto simp: check_api_key_def)
  from prompt_loop_returns [OF this] True show ?thesis by simp
next
  case False
  then obtain v where v: "environ s GEMINI_API_KEY = Some v" "v \<noteq> []" by auto
  with assms have "k = v" "s' = s" by (simp_all add: check_api_key_def)
  with v False show ?thesis by simp
qed

theorem returned_key_is_in_environment_witness:
  "check_api_key (posix_host everything (Exited 0))
     (fresh [Line (cps ''nope''), Line (cps '' AIza1234'')])
     = (Inr (cps ''AIza1234''),
        snd (check_api_key (posix_host everything (Exited 0))
               (fresh [Line (cps ''nope''), Line (cps '' AIza1234'')])))
   \<and> environ (snd (check_api_key (posix_host everything (Exited 0))
                      (fresh [Line (cps ''nope''), Line (cps '' AIza1234'')])))
        GEMINI_API_KEY = Some (cps ''AIza1234'')
   \<and> startswith (cps ''AIza1234'') (cps ''AIza'')"
proof -
  let ?h = "posix_host everything (Exited 0)"
  let ?s = "fresh [Line (cps ''nope''), Line (cps '' AIza1234'')]"
  have r: "check_api_key ?h ?s = (Inr (cps ''AIza1234''), snd (check_api_key ?h ?s))"
    by (simp add: check_api_key_def fresh_def banner_def py_print_def prompt_loop_Line
          key_rejected_def strip_def isspace_def startswith_def cps_def setenv_def
          GEMINI_API_KEY_def posix_host_def)
  from returned_key_is_in_environment [OF r] r show ?thesis by (simp add: fresh_def)
qed

section \<open>The menu: properties\<close>

text \<open>
  C10. The menu compares the trimmed input: for a line whose trimmed form is \<^verbatim>\<open>1\<close>, \<^verbatim>\<open>2\<close>
  or \<^verbatim>\<open>3\<close>, the loop shows the menu, reads the line and then runs the Visual Mode
  strategy, runs the Terminal Mode strategy, or prints the farewell and raises
  \<^verbatim>\<open>SystemExit(0)\<close>; it does not take the invalid-input branch.
\<close>

theorem menu_dispatches_on_trimmed_choice:
  assumes "stdin s = Line l # rest"
  shows "(strip l = cps ''1'' \<longrightarrow>
            menu_loop h s = run_with_gui h (snd (py_input choice_prompt (show_menu s))))
       \<and> (strip l = cps ''2'' \<longrightarrow>
            menu_loop h s = run_cli h (snd (py_input choice_prompt (show_menu s))))
       \<and> (strip l = cps ''3'' \<longrightarrow>
            menu_loop h s =
              (Inl (SystemExit 0), py_print goodbye (snd (py_input choice_prompt (show_menu s)))))"
  using assms by (simp add: menu_loop_Line cps_def)

theorem menu_dispatches_on_trimmed_choice_witness:
  "menu_loop (posix_host nothing (Exited 0)) (fresh [Line (cps '' 1 '')])
     = run_with_gui (posix_host nothing (Exited 0))
         (snd (py_input choice_prompt (show_menu (fresh [Line (cps '' 1 '')]))))
   \<and> menu_loop (posix_host nothing (Exited 0)) (fresh [Line (cps ''2'' @ [9])])
     = run_cli (posix_host nothing (Exited 0))
         (snd (py_input choice_prompt (show_menu (fresh [Line (cps ''2'' @ [9])]))))
   \<and> fst (menu_loop (posix_host nothing (Exited 0)) (fresh [Line (cps ''3'' @ [10])]))
     = Inl (SystemExit 0)"
  using menu_dispatches_on_trimmed_choice
          [of "fresh [Line (cps '' 1 '')]" "cps '' 1 ''" "[]" "posix_host nothing (Exited 0)"]
        menu_dispatches_on_trimmed_choice
          [of "fresh [Line (cps ''2'' @ [9])]" "cps ''2'' @ [9]" "[]"
              "posix_host nothing (Exited 0)"]
        menu_dispatches_on_trimmed_choice
          [of "fresh [Line (cps ''3'' @ [10])]" "cps ''3'' @ [10]" "[]"
              "posix_host nothing (Exited 0)"]
  by (simp add: fresh_def strip_def isspace_def cps_def)

text \<open>
  C3, as stated, fails. The line \<^verbatim>\<open>" 1"\<close> (a space, then 1) is none of the exact strings
  \<^verbatim>\<open>1\<close>, \<^verbatim>\<open>2\<close>, \<^verbatim>\<open>3\<close>, yet the menu enters the Visual Mode strategy; on a host without the
  \<^verbatim>\<open>.venv\<close> directory the process then ends with status 1.
\<close>

theorem untrimmed_choice_launches:
  "cps '' 1'' \<noteq> cps ''1'' \<and> cps '' 1'' \<noteq> cps ''2'' \<and> cps '' 1'' \<noteq> cps ''3''
   \<and> launched (snd (menu_loop (posix_host nothing (Exited 0)) (fresh [Line (cps '' 1'')])))
       = [VisualMode]
   \<and> fst (top_level (menu_loop (posix_host nothing (Exited 0)) (fresh [Line (cps '' 1'')])))
       = Exit 1"
  by (simp add: menu_loop_Line fresh_def strip_def isspace_def cps_def run_with_gui_def
        posix_host_def nothing_def py_print_def Let_def top_level_def venv_dir_def
        py_input_def show_menu_def gui_banner_def)

text \<open>
  C3, amended. For every line whose trimmed form is none of \<^verbatim>\<open>1\<close>, \<^verbatim>\<open>2\<close>, \<^verbatim>\<open>3\<close>, the menu
  loop shows the menu, reads the line, prints the error and an empty line, and goes on as
  the same loop (which shows the menu again) on the rest of the input: no launch strategy
  was entered, no child started, the environment is unchanged, and the process has not
  exited.
\<close>

theorem invalid_choice_redisplays:
  assumes "stdin s = Line l # rest"
      and "strip l \<noteq> cps ''1''" and "strip l \<noteq> cps ''2''" and "strip l \<noteq> cps ''3''"
  shows "\<exists>s'. menu_loop h s = menu_loop h s'
            \<and> stdin s' = rest
            \<and> stdout s' = stdout (show_menu s) @
                 [choice_prompt, cps ''Invalid choice. Please enter 1, 2, or 3.'' @ [10], [10]]
            \<and> launched s' = launched s \<and> spawned s' = spawned s \<and> environ s' = environ s"
  using assms
  by (intro exI [of _ "invalid_choice (snd (py_input choice_prompt (show_menu s)))"])
     (simp add: menu_loop_Line invalid_choice_def py_input_def show_menu_def py_print_def)

theorem invalid_choice_redisplays_witness:
  "\<exists>s'. menu_loop (posix_host nothing (Exited 0)) (fresh [Line (cps ''play''), Line (cps ''3'')])
           = menu_loop (posix_host nothing (Exited 0)) s'
       \<and> stdin s' = [Line (cps ''3'')] \<and> launched s' = [] \<and> spawned s' = []"
  using invalid_choice_redisplays
          [of "fresh [Line (cps ''play''), Line (cps ''3'')]" "cps ''play''"
              "[Line (cps ''3'')]" "posix_host nothing (Exited 0)"]
  by (auto simp: fresh_def strip_def isspace_def cps_def)

section \<open>Whole runs\<close>

lemma launcher_after_key:
  "check_api_key h s = (Inr k, s1) \<Longrightarrow> launcher h s = top_level (menu_loop h s1)"
  by (simp add: launcher_def main_def)

lemma top_level_interrupt: "fst r = Inl KeyboardInterrupt \<Longrightarrow> graceful_exit (top_level r)"
  by (cases r) (simp add: top_level_def graceful_exit_def py_print_def)

lemma top_level_never_interrupt: "fst (top_level r) \<noteq> Traceback KeyboardInterrupt"
  by (cases r) (auto simp: top_level_def split: sum.splits exn.splits)

lemma prompt_loop_rejected_prefix:
  "\<forall>l\<in>set ls. \<not> (strip l \<noteq> [] \<and> startswith (strip l) (cps ''AIza'')) \<Longrightarrow>
   stdin s = map Line ls @ rest \<Longrightarrow>
   \<exists>s'. prompt_loop h s = prompt_loop h s' \<and> stdin s' = rest \<and> environ s' = environ s"
proof (induction ls arbitrary: s)
  case Nil
  then show ?case by auto
next
  case (Cons l ls)
  from Cons.prems have st: "stdin s = Line l # (map Line ls @ rest)" by simp
  let ?s1 = "key_rejected (s\<lparr>stdout := stdout s @ [key_prompt], stdin := map Line ls @ rest\<rparr>)"
  have eq: "prompt_loop h s = prompt_loop h ?s1"
    using prompt_loop_Line [OF st] Cons.prems(1) by auto
  have "stdin ?s1 = map Line ls @ rest" by simp
  from Cons.IH [OF _ this] Cons.prems(1)
  obtain s' where "prompt_loop h ?s1 = prompt_loop h s'" "stdin s' = rest" "environ s' = environ ?s1"
    by auto
  with eq show ?case by (intro exI [of _ s']) simp
qed

lemma invalid_choice_fields [simp]:
  "stdin (invalid_choice s) = stdin s" "environ (invalid_choice s) = environ s"
  "launched (invalid_choice s) = launched s" "spawned (invalid_choice s) = spawned s"
  by (simp_all add: invalid_choice_def)

lemma menu_loop_invalid_prefix:
  "\<forall>l\<in>set ls. strip l \<noteq> cps ''1'' \<and> strip l \<noteq> cps ''2'' \<and> strip l \<noteq> cps ''3'' \<Longrightarrow>
   stdin s = map Line ls @ rest \<Longrightarrow>
   \<exists>s'. menu_loop h s = menu_loop h s' \<and> stdin s' = rest \<and> environ s' = environ s
        \<and> launched s' = launched s \<and> spawned s' = spawned s"
proof (induction ls arbitrary: s)
  case Nil
  then show ?case by auto
next
  case (Cons l ls)
  from Cons.prems have st: "stdin s = Line l # (map Line ls @ rest)" by simp
  let ?s1 = "invalid_choice (snd (py_input choice_prompt (show_menu s)))"
  have eq: "menu_loop h s = menu_loop h ?s1"
    using menu_loop_Line [OF st, of h] Cons.prems(1) by auto
  have f: "stdin ?s1 = map Line ls @ rest" "environ ?s1 = environ s"
          "launched ?s1 = launched s" "spawned ?s1 = spawned s"
    using asked_fields [OF st] by simp_all
  from Cons.IH [OF _ f(1)] Cons.prems(1)
  obtain s' where "menu_loop h ?s1 = menu_loop h s'" "stdin s' = rest" "environ s' = environ ?s1"
     "launched s' = launched ?s1" "spawned s' = spawned ?s1"
    by auto
  with eq f show ?case by (intro exI [of _ s']) simp
qed

lemma run_with_gui_Interrupted:
  "path_exists h (venv_dir h) \<Longrightarrow> path_exists h (pipedream_exe h) \<Longrightarrow>
   popen h (environ s) (gui_cmd h) = Interrupted \<Longrightarrow>
   fst (run_with_gui h s) = Inl KeyboardInterrupt"
  by (simp add: run_with_gui_def subprocess_run_def Let_def)

lemma run_cli_Interrupted:
  "path_exists h (pytrek_cli h) \<Longrightarrow> popen h (environ s) (cli_cmd h) = Interrupted \<Longrightarrow>
   fst (run_cli h s) = Inl KeyboardInterrupt"
  by (simp add: run_cli_def subprocess_run_def Let_def)

lemma last_py_print [simp]:
  "stdout (py_print x s) \<noteq> []" "last (stdout (py_print x s)) = x @ [10]"
  by (simp_all add: py_print_def)

lemma run_cli_Exited:
  "path_exists h (pytrek_cli h) \<Longrightarrow> popen h (environ s) (cli_cmd h) = Exited rc \<Longrightarrow>
   run_cli h s =
     (let s1 = (py_print cli_banner (s\<lparr>launched := launched s @ [TerminalMode]\<rparr>))
                 \<lparr>spawned := spawned s @ [cli_cmd h]\<rparr>
      in if rc \<noteq> 0
         then (Inl (SystemExit 1),
               py_print (cps ''Error running CLI: '' @ exc_str h (cli_cmd h) rc) s1)
         else (Inr (), s1))"
  by (simp add: run_cli_def subprocess_run_def Let_def py_print_def)

text \<open>
  C8. Once the credential gate has returned, the menu input \<^verbatim>\<open>3\<close> ends the process with
  status 0; the last text written is the farewell, and no launch strategy was entered and
  no child started.
\<close>

theorem exit_choice_says_goodbye:
  assumes "check_api_key h s = (Inr k, s1)" and "stdin s1 = Line (cps ''3'') # rest"
  shows "fst (launcher h s) = Exit 0
       \<and> last (stdout (snd (launcher h s))) = goodbye @ [10]
       \<and> launched (snd (launcher h s)) = launched s
       \<and> spawned (snd (launcher h s)) = spawned s"
proof -
  have s3: "strip (cps ''3'') = cps ''3''"
    by (simp add: strip_def isspace_def cps_def)
  have "menu_loop h s1 =
      (Inl (SystemExit 0), py_print goodbye (snd (py_input choice_prompt (show_menu s1))))"
    using menu_loop_Line [OF assms(2), of h] s3 by (simp add: cps_def)
  with assms(1) have l: "launcher h s =
      (Exit 0, py_print goodbye (snd (py_input choice_prompt (show_menu s1))))"
    by (simp add: launcher_after_key top_level_def)
  from check_api_key_frame [of h s] assms(1)
  have "launched s1 = launched s" "spawned s1 = spawned s" by simp_all
  with l asked_fields [OF assms(2)] show ?thesis by simp
qed

theorem exit_choice_says_goodbye_witness:
  "fst (launcher (posix_host everything (Exited 0)) (keyed (cps ''AIza1234'') [Line (cps ''3'')]))
     = Exit 0
   \<and> last (stdout (snd (launcher (posix_host everything (Exited 0))
        (keyed (cps ''AIza1234'') [Line (cps ''3'')])))) = goodbye @ [10]
   \<and> launched (snd (launcher (posix_host everything (Exited 0))
        (keyed (cps ''AIza1234'') [Line (cps ''3'')]))) = []"
proof -
  let ?s = "keyed (cps ''AIza1234'') [Line (cps ''3'')]"
  have k: "check_api_key h ?s = (Inr (cps ''AIza1234''), ?s)" for h
    by (simp add: check_api_key_def keyed_def cps_def)
  have i: "stdin ?s = Line (cps ''3'') # []" by (simp add: keyed_def)
  from exit_choice_says_goodbye [OF k i, of "posix_host everything (Exited 0)"] show ?thesis
    by (simp add: keyed_def)
qed

text \<open>
  C6. Once the credential gate has returned, with the menu input \<^verbatim>\<open>2\<close> and the script
  \<^verbatim>\<open>pytrek_cli.py\<close> present: if the child ends with return code 0 the process ends with
  status 0; if it ends with another return code the process ends with status 1 and the
  last text written is \<^verbatim>\<open>Error running CLI:\<close> followed by the text of the exception.
  In both cases exactly the command of the Terminal Mode was started.
\<close>

theorem terminal_mode_exit_status:
  assumes "check_api_key h s = (Inr k, s1)" and "stdin s1 = Line (cps ''2'') # rest"
      and "path_exists h (pytrek_cli h)"
      and "popen h (environ s1) (cli_cmd h) = Exited rc"
  shows "(rc = 0 \<longrightarrow> fst (launcher h s) = Exit 0)
       \<and> (rc \<noteq> 0 \<longrightarrow> fst (launcher h s) = Exit 1
            \<and> last (stdout (snd (launcher h s)))
                = cps ''Error running CLI: '' @ exc_str h (cli_cmd h) rc @ [10])
       \<and> spawned (snd (launcher h s)) = spawned s @ [cli_cmd h]"
proof -
  let ?s2 = "snd (py_input choice_prompt (show_menu s1))"
  have s2: "strip (cps ''2'') = cps ''2''"
    by (simp add: strip_def isspace_def cps_def)
  have m: "menu_loop h s1 = run_cli h ?s2"
    using menu_loop_Line [OF assms(2), of h] s2 by (simp add: cps_def)
  from asked_fields [OF assms(2)] assms(4)
  have p: "popen h (environ ?s2) (cli_cmd h) = Exited rc" and sp: "spawned ?s2 = spawned s1"
    by simp_all
  from check_api_key_frame [of h s] assms(1) have "spawned s1 = spawned s" by simp
  with sp m assms(1) run_cli_Exited [OF assms(3) p] show ?thesis
    by (simp add: launcher_after_key top_level_def Let_def py_print_def)
qed

theorem terminal_mode_exit_status_witness:
  "fst (launcher (posix_host everything (Exited 0)) (keyed (cps ''AIza1234'') [Line (cps ''2'')]))
     = Exit 0
   \<and> fst (launcher (posix_host everything (Exited 3)) (keyed (cps ''AIza1234'') [Line (cps ''2'')]))
     = Exit 1
   \<and> last (stdout (snd (launcher (posix_host everything (Exited 3))
        (keyed (cps ''AIza1234'') [Line (cps ''2'')]))))
     = cps ''Error running CLI: non-zero exit status'' @ [10]"
proof -
  let ?s = "keyed (cps ''AIza1234'') [Line (cps ''2'')]"
  have k: "check_api_key h ?s = (Inr (cps ''AIza1234''), ?s)" for h
    by (simp add: check_api_key_def keyed_def cps_def)
  have i: "stdin ?s = Line (cps ''2'') # []" by (simp add: keyed_def)
  have e: "path_exists (posix_host everything c) (pytrek_cli (posix_host everything c))" for c
    by (simp add: posix_host_def everything_def)
  have p: "popen (posix_host everything c) (environ ?s) (cli_cmd (posix_host everything c)) = c" for c
    by (simp add: posix_host_def)
  from terminal_mode_exit_status [OF k i e [of "Exited 0"] p [of "Exited 0"]]
       terminal_mode_exit_status [OF k i e [of "Exited 3"] p [of "Exited 3"]]
  show ?thesis by (simp add: posix_host_def cps_def)
qed

text \<open>
  C5. Once the credential gate has returned: with the choice \<^verbatim>\<open>1\<close>, when the \<^verbatim>\<open>.venv\<close>
  directory or the resolved \<^verbatim>\<open>pipedream-gui\<close> executable does not exist, and with the
  choice \<^verbatim>\<open>2\<close>, when \<^verbatim>\<open>pytrek_cli.py\<close> does not exist, the process ends with status 1,
  the last text written is the diagnostic of the missing dependency, and no child was
  started.
\<close>

theorem missing_dependency_fails_fast:
  assumes "check_api_key h s = (Inr k, s1)" and "stdin s1 = Line l # rest"
  shows "(strip l = cps ''1'' \<and> (\<not> path_exists h (venv_dir h) \<or> \<not> path_exists h (pipedream_exe h))
            \<longrightarrow> fst (launcher h s) = Exit 1
              \<and> spawned (snd (launcher h s)) = spawned s
              \<and> last (stdout (snd (launcher h s))) =
                  (if \<not> path_exists h (venv_dir h)
                   then cps ''Error: Virtual environment not found. Run 'uv venv && uv pip install -e .' first.'' @ [10]
                   else cps ''Error: pipedream-gui not found at '' @ path_str h (pipedream_exe h) @ [10]))
       \<and> (strip l = cps ''2'' \<and> \<not> path_exists h (pytrek_cli h)
            \<longrightarrow> fst (launcher h s) = Exit 1
              \<and> spawned (snd (launcher h s)) = spawned s
              \<and> last (stdout (snd (launcher h s))) =
                  cps ''Error: pytrek_cli.py not found at '' @ path_str h (pytrek_cli h) @ [10])"
proof -
  let ?s2 = "snd (py_input choice_prompt (show_menu s1))"
  from check_api_key_frame [of h s] assms(1) asked_fields [OF assms(2)]
  have sp: "spawned ?s2 = spawned s" by simp
  have l: "launcher h s = top_level (menu_loop h s1)"
    using assms(1) by (rule launcher_after_key)
  show ?thesis
  proof (intro conjI impI)
    assume a: "strip l = cps ''1'' \<and> (\<not> path_exists h (venv_dir h) \<or> \<not> path_exists h (pipedream_exe h))"
    then have m: "menu_loop h s1 = run_with_gui h ?s2"
      using menu_loop_Line [OF assms(2), of h] by simp
    from a sp show "fst (launcher h s) = Exit 1"
      by (auto simp: l m run_with_gui_def Let_def top_level_def)
    from a sp show "spawned (snd (launcher h s)) = spawned s"
      by (auto simp: l m run_with_gui_def Let_def top_level_def)
    from a sp show "last (stdout (snd (launcher h s))) =
                  (if \<not> path_exists h (venv_dir h)
                   then cps ''Error: Virtual environment not found. Run 'uv venv && uv pip install -e .' first.'' @ [10]
                   else cps ''Error: pipedream-gui not found at '' @ path_str h (pipedream_exe h) @ [10])"
      by (auto simp: l m run_with_gui_def Let_def top_level_def)
  next
    assume a: "strip l = cps ''2'' \<and> \<not> path_exists h (pytrek_cli h)"
    then have m: "menu_loop h s1 = run_cli h ?s2"
      using menu_loop_Line [OF assms(2), of h] by (simp add: cps_def)
    from a sp show "fst (launcher h s) = Exit 1"
      by (simp add: l m run_cli_def Let_def top_level_def)
    from a sp show "spawned (snd (launcher h s)) = spawned s"
      by (simp add: l m run_cli_def Let_def top_level_def)
    from a sp show "last (stdout (snd (launcher h s))) =
                  cps ''Error: pytrek_cli.py not found at '' @ path_str h (pytrek_cli h) @ [10]"
      by (simp add: l m run_cli_def Let_def top_level_def)
  qed
qed

theorem missing_dependency_fails_fast_witness:
  "fst (launcher (posix_host nothing (Exited 0)) (keyed (cps ''AIza1234'') [Line (cps ''1'')])) = Exit 1
 \<and> spawned (snd (launcher (posix_host nothing (Exited 0)) (keyed (cps ''AIza1234'') [Line (cps ''1'')]))) = []
 \<and> fst (launcher (posix_host only_venv (Exited 0)) (keyed (cps ''AIza1234'') [Line (cps ''1'')])) = Exit 1
 \<and> last (stdout (snd (launcher (posix_host only_venv (Exited 0))
      (keyed (cps ''AIza1234'') [Line (cps ''1'')]))))
     = cps ''Error: pipedream-gui not found at game.venvbinpipedream-gui'' @ [10]
 \<and> fst (launcher (posix_host nothing (Exited 0)) (keyed (cps ''AIza1234'') [Line (cps ''2'')])) = Exit 1
 \<and> spawned (snd (launcher (posix_host nothing (Exited 0)) (keyed (cps ''AIza1234'') [Line (cps ''2'')]))) = []"
proof -
  have k: "check_api_key h (keyed (cps ''AIza1234'') evs)
             = (Inr (cps ''AIza1234''), keyed (cps ''AIza1234'') evs)" for evs h
    by (simp add: check_api_key_def keyed_def cps_def)
  have i: "stdin (keyed (cps ''AIza1234'') [Line x]) = Line x # []" for x by (simp add: keyed_def)
  from missing_dependency_fails_fast [OF k i, of "cps ''1''" "posix_host nothing (Exited 0)"]
       missing_dependency_fails_fast [OF k i, of "cps ''1''" "posix_host only_venv (Exited 0)"]
       missing_dependency_fails_fast [OF k i, of "cps ''2''" "posix_host nothing (Exited 0)"]
  show ?thesis
    by (simp add: posix_host_def nothing_def only_venv_def keyed_def strip_def isspace_def
          venv_dir_def pipedream_exe_def pytrek_cli_def cps_def)
qed

text \<open>
  C4. The specification has both strategies report a command not found at spawn time and
  end the process with a non-zero status of their own. On a host where every path
  exists and spawning meets \<^verbatim>\<open>FileNotFoundError\<close>: with the choice \<^verbatim>\<open>2\<close> the exception
  leaves \<^verbatim>\<open>run_cli\<close> unhandled (the process ends with a traceback, and the last text the
  launcher wrote is its launch banner, no diagnostic); with the choice \<^verbatim>\<open>1\<close> the sibling
  \<^verbatim>\<open>run_with_gui\<close> prints its diagnostic and ends the process with status 1.
\<close>

theorem terminal_mode_spawn_failure_unhandled:
  "fst (launcher (posix_host everything NotFound) (keyed (cps ''AIza1234'') [Line (cps ''2'')]))
     = Traceback FileNotFoundError
 \<and> last (stdout (snd (launcher (posix_host everything NotFound)
      (keyed (cps ''AIza1234'') [Line (cps ''2'')])))) = cli_banner @ [10]
 \<and> fst (launcher (posix_host everything NotFound) (keyed (cps ''AIza1234'') [Line (cps ''1'')]))
     = Exit 1
 \<and> last (stdout (snd (launcher (posix_host everything NotFound)
      (keyed (cps ''AIza1234'') [Line (cps ''1'')]))))
     = cps ''Error: Required command not found'' @ [10]"
  by (simp add: launcher_def main_def check_api_key_def keyed_def menu_loop_Line
        strip_def isspace_def cps_def run_cli_def run_with_gui_def subprocess_run_def
        posix_host_def everything_def top_level_def Let_def py_input_def show_menu_def
        py_print_def)

text \<open>
  C2. A \<^verbatim>\<open>KeyboardInterrupt\<close> never ends the process as an unhandled exception, and
  whenever it leaves \<^verbatim>\<open>main\<close> the process exits gracefully: status 0, the farewell written
  last. This is what happens at each suspension point: an interrupt at the credential
  prompt (after any number of rejected lines), an interrupt at the menu prompt (after any
  number of invalid choices), and an interrupt while waiting for the child of the Visual
  Mode or of the Terminal Mode.
\<close>

theorem interrupt_exits_gracefully:
  "fst (launcher h s) \<noteq> Traceback KeyboardInterrupt
 \<and> (fst (main h s) = Inl KeyboardInterrupt \<longrightarrow> graceful_exit (launcher h s))
 \<and> ((environ s GEMINI_API_KEY = None \<or> environ s GEMINI_API_KEY = Some [])
      \<and> stdin s = map Line ls @ Interrupt # rest
      \<and> (\<forall>l\<in>set ls. \<not> (strip l \<noteq> [] \<and> startswith (strip l) (cps ''AIza'')))
     \<longrightarrow> graceful_exit (launcher h s))
 \<and> (check_api_key h s = (Inr k, s1)
      \<and> stdin s1 = map Line ls @ Interrupt # rest
      \<and> (\<forall>l\<in>set ls. strip l \<noteq> cps ''1'' \<and> strip l \<noteq> cps ''2'' \<and> strip l \<noteq> cps ''3'')
     \<longrightarrow> graceful_exit (launcher h s))
 \<and> (check_api_key h s = (Inr k, s1)
      \<and> stdin s1 = map Line ls @ Line l # rest
      \<and> (\<forall>l\<in>set ls. strip l \<noteq> cps ''1'' \<and> strip l \<noteq> cps ''2'' \<and> strip l \<noteq> cps ''3'')
      \<and> (strip l = cps ''1'' \<and> path_exists h (venv_dir h) \<and> path_exists h (pipedream_exe h)
            \<and> popen h (environ s1) (gui_cmd h) = Interrupted
          \<or> strip l = cps ''2'' \<and> path_exists h (pytrek_cli h)
            \<and> popen h (environ s1) (cli_cmd h) = Interrupted)
     \<longrightarrow> graceful_exit (launcher h s))"
proof (intro conjI impI)
  show "fst (launcher h s) \<noteq> Traceback KeyboardInterrupt"
    by (simp add: launcher_def top_level_never_interrupt)
next
  assume "fst (main h s) = Inl KeyboardInterrupt"
  then show "graceful_exit (launcher h s)"
    by (simp add: launcher_def top_level_interrupt)
next
  assume a: "(environ s GEMINI_API_KEY = None \<or> environ s GEMINI_API_KEY = Some [])
      \<and> stdin s = map Line ls @ Interrupt # rest
      \<and> (\<forall>l\<in>set ls. \<not> (strip l \<noteq> [] \<and> startswith (strip l) (cps ''AIza'')))"
  then have c: "check_api_key h s = prompt_loop h (banner s)"
    by (auto simp: check_api_key_def)
  from a have "stdin (banner s) = map Line ls @ Interrupt # rest"
    by (simp add: banner_def)
  from prompt_loop_rejected_prefix [OF _ this] a
  obtain s' where s': "prompt_loop h (banner s) = prompt_loop h s'" "stdin s' = Interrupt # rest"
    by blast
  from s' c have "fst (check_api_key h s) = Inl KeyboardInterrupt"
    by (simp add: prompt_loop_Interrupt)
  then have "fst (main h s) = Inl KeyboardInterrupt"
    by (cases "check_api_key h s") (simp add: main_def)
  then show "graceful_exit (launcher h s)"
    by (simp add: launcher_def top_level_interrupt)
next
  assume a: "check_api_key h s = (Inr k, s1)
      \<and> stdin s1 = map Line ls @ Interrupt # rest
      \<and> (\<forall>l\<in>set ls. strip l \<noteq> cps ''1'' \<and> strip l \<noteq> cps ''2'' \<and> strip l \<noteq> cps ''3'')"
  from menu_loop_invalid_prefix [of ls s1 "Interrupt # rest" h] a
  obtain s' where s': "menu_loop h s1 = menu_loop h s'" "stdin s' = Interrupt # rest"
    by blast
  then have "fst (menu_loop h s1) = Inl KeyboardInterrupt"
    by (simp add: menu_loop_Interrupt)
  with a show "graceful_exit (launcher h s)"
    by (simp add: launcher_after_key top_level_interrupt)
next
  assume a: "check_api_key h s = (Inr k, s1)
      \<and> stdin s1 = map Line ls @ Line l # rest
      \<and> (\<forall>l\<in>set ls. strip l \<noteq> cps ''1'' \<and> strip l \<noteq> cps ''2'' \<and> strip l \<noteq> cps ''3'')
      \<and> (strip l = cps ''1'' \<and> path_exists h (venv_dir h) \<and> path_exists h (pipedream_exe h)
            \<and> popen h (environ s1) (gui_cmd h) = Interrupted
          \<or> strip l = cps ''2'' \<and> path_exists h (pytrek_cli h)
            \<and> popen h (environ s1) (cli_cmd h) = Interrupted)"
  from menu_loop_invalid_prefix [of ls s1 "Line l # rest" h] a
  obtain s' where s': "menu_loop h s1 = menu_loop h s'" "stdin s' = Line l # rest"
      "environ s' = environ s1"
    by blast
  let ?s2 = "snd (py_input choice_prompt (show_menu s'))"
  have e: "environ ?s2 = environ s1"
    using asked_fields [OF s'(2)] s'(3) by simp
  from a have "fst (menu_loop h s') = Inl KeyboardInterrupt"
  proof (elim conjE disjE)
    assume "strip l = cps ''1''" "path_exists h (venv_dir h)" "path_exists h (pipedream_exe h)"
      "popen h (environ s1) (gui_cmd h) = Interrupted"
    then show ?thesis
      using run_with_gui_Interrupted [of h ?s2] e by (simp add: menu_loop_Line [OF s'(2)])
  next
    assume "strip l = cps ''2''" "path_exists h (pytrek_cli h)"
      "popen h (environ s1) (cli_cmd h) = Interrupted"
    then show ?thesis
      using run_cli_Interrupted [of h ?s2] e by (simp add: menu_loop_Line [OF s'(2)] cps_def)
  qed
  with a s' show "graceful_exit (launcher h s)"
    by (simp add: launcher_after_key top_level_interrupt)
qed

theorem interrupt_exits_gracefully_witness:
  "graceful_exit (launcher (posix_host everything (Exited 0)) (fresh [Line (cps ''bad''), Interrupt]))
 \<and> graceful_exit (launcher (posix_host everything (Exited 0))
      (keyed (cps ''AIza1234'') [Line (cps ''9''), Interrupt]))
 \<and> graceful_exit (launcher (posix_host everything Interrupted)
      (keyed (cps ''AIza1234'') [Line (cps ''1'')]))
 \<and> graceful_exit (launcher (posix_host everything Interrupted)
      (keyed (cps ''AIza1234'') [Line (cps ''7''), Line (cps ''2'')]))"
proof -
  have k: "check_api_key h (keyed (cps ''AIza1234'') evs)
             = (Inr (cps ''AIza1234''), keyed (cps ''AIza1234'') evs)" for evs h
    by (simp add: check_api_key_def keyed_def cps_def)
  have 1: "graceful_exit (launcher (posix_host everything (Exited 0)) (fresh [Line (cps ''bad''), Interrupt]))"
    using interrupt_exits_gracefully [where h = "posix_host everything (Exited 0)"
                and s = "fresh [Line (cps ''bad''), Interrupt]"
                and ls = "[cps ''bad'']" and rest = "[]"]
    by (simp add: fresh_def strip_def isspace_def startswith_def cps_def)
  have 2: "graceful_exit (launcher (posix_host everything (Exited 0))
      (keyed (cps ''AIza1234'') [Line (cps ''9''), Interrupt]))"
    using interrupt_exits_gracefully [where h = "posix_host everything (Exited 0)"
                and s = "keyed (cps ''AIza1234'') [Line (cps ''9''), Interrupt]"
                and ls = "[cps ''9'']" and rest = "[]" and k = "cps ''AIza1234''"
                and ?s1.0 = "keyed (cps ''AIza1234'') [Line (cps ''9''), Interrupt]"]
          k [of _ "[Line (cps ''9''), Interrupt]"]
    by (simp add: keyed_def strip_def isspace_def cps_def)
  have 3: "graceful_exit (launcher (posix_host everything Interrupted)
      (keyed (cps ''AIza1234'') [Line (cps ''1'')]))"
    using interrupt_exits_gracefully [where h = "posix_host everything Interrupted"
                and s = "keyed (cps ''AIza1234'') [Line (cps ''1'')]"
                and ls = "[]" and rest = "[]" and k = "cps ''AIza1234''"
                and ?s1.0 = "keyed (cps ''AIza1234'') [Line (cps ''1'')]" and l = "cps ''1''"]
          k [of _ "[Line (cps ''1'')]"]
    by (simp add: keyed_def strip_def isspace_def cps_def posix_host_def everything_def)
  have 4: "graceful_exit (launcher (posix_host everything Interrupted)
      (keyed (cps ''AIza1234'') [Line (cps ''7''), Line (cps ''2'')]))"
    using interrupt_exits_gracefully [where h = "posix_host everything Interrupted"
                and s = "keyed (cps ''AIza1234'') [Line (cps ''7''), Line (cps ''2'')]"
                and ls = "[cps ''7'']" and rest = "[]" and k = "cps ''AIza1234''"
                and ?s1.0 = "keyed (cps ''AIza1234'') [Line (cps ''7''), Line (cps ''2'')]"
                and l = "cps ''2''"]
          k [of _ "[Line (cps ''7''), Line (cps ''2'')]"]
    by (simp add: keyed_def strip_def isspace_def cps_def posix_host_def everything_def)
  from 1 2 3 4 show ?thesis by simp
qed

end
